theory Spec2Isabelle
  imports Main "HOL-Library.AList"
begin

section \<open>Data model of the conversation manager\<close>

text \<open>
  The types follow the TypeScript interfaces of the conversation module. An optional
  field (\<^verbatim>\<open>name?: T\<close>) is an \<open>option\<close>; a key that is absent and a key
  that holds \<^verbatim>\<open>undefined\<close> both read as \<open>None\<close>. \<^verbatim>\<open>Time\<close> is a
  number (the value of \<^verbatim>\<open>new Date().getTime()\<close>), which every operation that
  stamps a response takes as an argument. The opaque maps
  (\<^verbatim>\<open>Record<string, any>\<close>, the headers, the slot values) are association lists
  of strings.
\<close>

type_synonym Time = int

type_synonym Context = "(string \<times> string) list"

record Choice =
  choiceId :: string
  choiceText :: string

record BotResponseMetadata =
  meta_intentId :: "string option"
  escalation :: "bool option"
  frustration :: "bool option"
  incomprehension :: "bool option"

record BotMessage =
  messageId :: "string option"
  msg_text :: string
  choices :: "Choice list"
  selectedChoiceId :: "string option"

record BotResponsePayload =
  bot_conversationId :: "string option"
  messages :: "BotMessage list"
  metadata :: "BotResponseMetadata option"
  bot_payload :: "string option"
  bot_context :: "Context option"

datatype UserResponsePayload =
  UserText string
| UserChoice string

datatype Response =
  BotResponse Time BotResponsePayload
| UserResponse Time UserResponsePayload

type_synonym State = "Response list"

record Config =
  botUrl :: string
  cfg_userId :: "string option"
  failureMessages :: "string list option"
  greetingMessages :: "string list option"
  cfg_context :: "Context option"
  triggerWelcomeIntent :: "bool option"
  headers :: "(string \<times> string) list option"
  languageCode :: "string option"
  experimental_channelType :: "string option"

record StructuredRequest =
  sr_choiceId :: "string option"
  sr_intentId :: "string option"
  sr_slots :: "(string \<times> string) list option"

record InternalState =
  responses :: "Response list"
  conversationId :: "string option"
  userId :: "string option"
  contextSent :: bool

text \<open>
  \<^verbatim>\<open>Partial<InternalState>\<close>, the argument of \<^verbatim>\<open>setState\<close>: each key is
  absent (\<open>None\<close>) or present with a value; \<^verbatim>\<open>{conversationId: undefined}\<close> is
  the key present with the value \<^verbatim>\<open>undefined\<close>, \<open>Some None\<close>.
\<close>

record PartialInternalState =
  ch_responses :: "Response list option"
  ch_conversationId :: "string option option"
  ch_userId :: "string option option"
  ch_contextSent :: "bool option"

subsection \<open>The wire\<close>

datatype Request =
  Unstructured string
| Structured StructuredRequest

text \<open>The body handed to the transport, \<^verbatim>\<open>bodyWithContext\<close> in \<^verbatim>\<open>sendToBot\<close>.\<close>

record OutboundBody =
  body_context :: "Context option"
  body_userId :: "string option"
  body_conversationId :: "string option"
  request :: Request
  body_languageCode :: "string option"
  body_channelType :: "string option"

text \<open>
  What \<^verbatim>\<open>sendToBot\<close> receives from its callers: the three keys
  \<^verbatim>\<open>userId\<close>, \<^verbatim>\<open>conversationId\<close> and \<^verbatim>\<open>request\<close>.
\<close>

record SendBody =
  sb_userId :: "string option"
  sb_conversationId :: "string option"
  sb_request :: Request

text \<open>
  The inbound payload, with the shape of the wire format: a message of the service has
  an optional \<^verbatim>\<open>choices\<close> key and no \<^verbatim>\<open>selectedChoiceId\<close>.
\<close>

record WireMessage =
  wm_messageId :: "string option"
  wm_text :: string
  wm_choices :: "Choice list option"

record WireResponse =
  wr_conversationId :: "string option"
  wr_messages :: "WireMessage list"
  wr_metadata :: "BotResponseMetadata option"
  wr_payload :: "string option"
  wr_context :: "Context option"

text \<open>
  The argument of \<^verbatim>\<open>messageResposeHandler\<close> is typed \<^verbatim>\<open>any\<close>. The values
  it is given are the result of \<^verbatim>\<open>res.json()\<close>, the result of
  \<^verbatim>\<open>JSON.parse\<close>, or the sentinel \<^verbatim>\<open>{ isPending: true }\<close> of the socket
  transport: \<^verbatim>\<open>undefined\<close> and \<^verbatim>\<open>null\<close> (falsy), the sentinel (truthy, with a
  truthy \<^verbatim>\<open>isPending\<close>), or a payload of the wire format (truthy, without
  \<^verbatim>\<open>isPending\<close>).
\<close>

datatype Reply =
  ReplyUndefined
| ReplyNull
| ReplyPending
| ReplyPayload WireResponse

datatype JSError = SyntaxError

text \<open>
  \<^verbatim>\<open>e.data\<close> of a socket message event: binary data, or a string. \<^verbatim>\<open>JSON.parse\<close>
  belongs to the JavaScript runtime, not to this module: a string comes with what
  \<^verbatim>\<open>JSON.parse\<close> does on it, which is to throw or to return the parsed value.
\<close>

datatype MessageData =
  StringData string "JSError + Reply"
| BinaryData

subsection \<open>The manager\<close>

text \<open>
  A subscriber is a function value, compared by reference
  (\<^verbatim>\<open>fn !== subscriber\<close>): here a reference number. What a subscriber does
  when called is outside the manager; the call itself is recorded, with the snapshot it
  is given. The effects of the manager on the outside (subscriber calls, the socket,
  HTTP requests) are recorded in the order in which they happen. The connection state of
  the socket belongs to the browser and is not part of the model: \<^verbatim>\<open>socket.send\<close>
  is recorded as the hand-over of the body.
\<close>

type_synonym Subscriber = nat

datatype Effect =
  Notify Subscriber State
| SocketOpen string
| SocketSend OutboundBody
| FetchPost string "(string \<times> string) list" OutboundBody

text \<open>
  The variables captured by the closures of \<^verbatim>\<open>createConversation\<close>:
  \<^verbatim>\<open>state\<close> and \<^verbatim>\<open>subscribers\<close>, and the record of effects.
\<close>

record Manager =
  state :: InternalState
  subscribers :: "Subscriber list"
  effects :: "Effect list"

text \<open>
  The promise returned by \<^verbatim>\<open>sendToBot\<close>: already resolved with a value (the socket
  transport), or waiting for the network (\<^verbatim>\<open>fetch\<close>).
\<close>

datatype Promise =
  PromiseResolved Reply
| PromiseAwaiting

text \<open>How a promise settles.\<close>

datatype Outcome =
  Fulfilled Reply
| Rejected

section \<open>Operations\<close>

definition defaultFailureMessages :: "string list" where
  "defaultFailureMessages =
     [''We encountered an issue while contacting the server. Please try again in a few moments.'']"

definition fromInternal :: "InternalState \<Rightarrow> State" where
  "fromInternal internalState = responses internalState"

text \<open>\<^verbatim>\<open>{ ...state, ...change }\<close>: a key of the change wins over the state's.\<close>

definition mergeState :: "InternalState \<Rightarrow> PartialInternalState \<Rightarrow> InternalState" where
  "mergeState s change =
     \<lparr> responses = (case ch_responses change of None \<Rightarrow> responses s | Some r \<Rightarrow> r),
       conversationId = (case ch_conversationId change of None \<Rightarrow> conversationId s | Some c \<Rightarrow> c),
       userId = (case ch_userId change of None \<Rightarrow> userId s | Some u \<Rightarrow> u),
       contextSent = (case ch_contextSent change of None \<Rightarrow> contextSent s | Some b \<Rightarrow> b) \<rparr>"

definition noChange :: PartialInternalState where
  "noChange = \<lparr> ch_responses = None, ch_conversationId = None, ch_userId = None,
                ch_contextSent = None \<rparr>"

definition setState :: "PartialInternalState \<Rightarrow> Manager \<Rightarrow> Manager" where
  "setState change m =
     (let s' = mergeState (state m) change
      in m\<lparr> state := s',
            effects := effects m @ map (\<lambda>subscriber. Notify subscriber (fromInternal s'))
                                       (subscribers m) \<rparr>)"

definition failureHandler :: "Config \<Rightarrow> Time \<Rightarrow> Manager \<Rightarrow> Manager" where
  "failureHandler config now m =
     setState (noChange\<lparr> ch_responses := Some (responses (state m) @
        [BotResponse now
           \<lparr> bot_conversationId = None,
             messages = map (\<lambda>messageBody.
                           \<lparr> messageId = None, msg_text = messageBody, choices = [],
                             selectedChoiceId = None \<rparr>)
                         (case failureMessages config of
                            Some fm \<Rightarrow> fm
                          | None \<Rightarrow> defaultFailureMessages),
             metadata = None,
             bot_payload = None,
             bot_context = None \<rparr>]) \<rparr>) m"

definition fromWireMessage :: "WireMessage \<Rightarrow> BotMessage" where
  "fromWireMessage message =
     \<lparr> messageId = wm_messageId message,
       msg_text = wm_text message,
       choices = (case wm_choices message of Some cs \<Rightarrow> cs | None \<Rightarrow> []),
       selectedChoiceId = None \<rparr>"

fun messageResposeHandler :: "Time \<Rightarrow> Reply \<Rightarrow> Manager \<Rightarrow> Manager" where
  "messageResposeHandler now (ReplyPayload response) m =
     setState (noChange\<lparr>
        ch_conversationId := Some (wr_conversationId response),
        ch_responses := Some (responses (state m) @
          [BotResponse now
             \<lparr> bot_conversationId = wr_conversationId response,
               messages = map fromWireMessage (wr_messages response),
               metadata = wr_metadata response,
               bot_payload = wr_payload response,
               bot_context = wr_context response \<rparr>]) \<rparr>) m"
| "messageResposeHandler now ReplyPending m = m"
| "messageResposeHandler now ReplyUndefined m = m"
| "messageResposeHandler now ReplyNull m = m"

text \<open>
  \<^verbatim>\<open>config.botUrl && config.botUrl.indexOf("wss://") === 0\<close>: the URL is not empty
  and starts with the six characters.
\<close>

definition isUsingWebSockets :: "Config \<Rightarrow> bool" where
  "isUsingWebSockets config \<longleftrightarrow> botUrl config \<noteq> [] \<and> take 6 (botUrl config) = ''wss://''"

text \<open>
  \<^verbatim>\<open>{ ...config.headers, "content-type": "application/json" }\<close>: the key keeps its
  place when the configured headers have it, and is added at the end otherwise.
\<close>

definition fetchHeaders :: "Config \<Rightarrow> (string \<times> string) list" where
  "fetchHeaders config =
     AList.update ''content-type'' ''application/json''
       (case headers config of None \<Rightarrow> [] | Some hs \<Rightarrow> hs)"

definition sendToBot :: "Config \<Rightarrow> SendBody \<Rightarrow> Manager \<Rightarrow> Promise \<times> Manager" where
  "sendToBot config body m =
     (let bodyWithContext =
            \<lparr> body_context = (if cfg_context config \<noteq> None \<and> \<not> contextSent (state m)
                               then cfg_context config else None),
              body_userId = sb_userId body,
              body_conversationId = sb_conversationId body,
              request = sb_request body,
              body_languageCode = languageCode config,
              body_channelType = experimental_channelType config \<rparr>;
          m1 = (if \<not> contextSent (state m)
                then m\<lparr> state := (state m)\<lparr> contextSent := True \<rparr> \<rparr> else m)
      in if isUsingWebSockets config
         then (PromiseResolved ReplyPending,
               m1\<lparr> effects := effects m1 @ [SocketSend bodyWithContext] \<rparr>)
         else (PromiseAwaiting,
               m1\<lparr> effects := effects m1 @
                      [FetchPost (botUrl config) (fetchHeaders config) bodyWithContext] \<rparr>))"

text \<open>
  \<^verbatim>\<open>.then(messageResposeHandler).catch(failureHandler)\<close>, run when the promise
  settles.
\<close>

fun thenCatch :: "Config \<Rightarrow> Time \<Rightarrow> Outcome \<Rightarrow> Manager \<Rightarrow> Manager" where
  "thenCatch config now (Fulfilled response) m = messageResposeHandler now response m"
| "thenCatch config now Rejected m = failureHandler config now m"

definition sendIntent :: "Config \<Rightarrow> string \<Rightarrow> Manager \<Rightarrow> Promise \<times> Manager" where
  "sendIntent config intentId m =
     sendToBot config
       \<lparr> sb_userId = userId (state m),
         sb_conversationId = conversationId (state m),
         sb_request = Structured \<lparr> sr_choiceId = None, sr_intentId = Some intentId,
                                   sr_slots = None \<rparr> \<rparr> m"

definition sendText :: "Config \<Rightarrow> Time \<Rightarrow> string \<Rightarrow> Manager \<Rightarrow> Promise \<times> Manager" where
  "sendText config now txt m =
     (let m1 = setState (noChange\<lparr> ch_responses := Some (responses (state m) @
                  [UserResponse now (UserText txt)]) \<rparr>) m
      in sendToBot config
           \<lparr> sb_userId = userId (state m1),
             sb_conversationId = conversationId (state m1),
             sb_request = Unstructured txt \<rparr> m1)"

definition sendStructured :: "Config \<Rightarrow> StructuredRequest \<Rightarrow> Manager \<Rightarrow> Promise \<times> Manager" where
  "sendStructured config structured m =
     sendToBot config
       \<lparr> sb_userId = userId (state m),
         sb_conversationId = conversationId (state m),
         sb_request = Structured structured \<rparr> m"

definition sendSlots :: "Config \<Rightarrow> (string \<times> string) list \<Rightarrow> Manager \<Rightarrow> Promise \<times> Manager" where
  "sendSlots config slots m =
     sendToBot config
       \<lparr> sb_userId = userId (state m),
         sb_conversationId = conversationId (state m),
         sb_request = Structured \<lparr> sr_choiceId = None, sr_intentId = None,
                                   sr_slots = Some slots \<rparr> \<rparr> m"

text \<open>\<^verbatim>\<open>Array.prototype.indexOf\<close>: the first position of the value, or \<open>-1\<close>.\<close>

fun indexOf :: "'a list \<Rightarrow> 'a \<Rightarrow> int" where
  "indexOf [] v = -1"
| "indexOf (x # xs) v =
     (if x = v then 0 else (let i = indexOf xs v in if i = -1 then -1 else i + 1))"

definition selectChoice :: "string \<Rightarrow> BotMessage \<Rightarrow> BotMessage" where
  "selectChoice cid botMessage =
     botMessage\<lparr> selectedChoiceId :=
       (if indexOf (map choiceId (choices botMessage)) cid > -1
        then Some cid
        else selectedChoiceId botMessage) \<rparr>"

fun selectInResponse :: "string \<Rightarrow> Response \<Rightarrow> Response" where
  "selectInResponse cid (BotResponse receivedAt payload) =
     BotResponse receivedAt (payload\<lparr> messages := map (selectChoice cid) (messages payload) \<rparr>)"
| "selectInResponse cid (UserResponse receivedAt payload) = UserResponse receivedAt payload"

definition sendChoice :: "Config \<Rightarrow> Time \<Rightarrow> string \<Rightarrow> Manager \<Rightarrow> Promise \<times> Manager" where
  "sendChoice config now cid m =
     (let newResponses = map (selectInResponse cid) (responses (state m)) @
                           [UserResponse now (UserChoice cid)];
          m1 = setState (noChange\<lparr> ch_responses := Some newResponses \<rparr>) m
      in sendToBot config
           \<lparr> sb_userId = userId (state m1),
             sb_conversationId = conversationId (state m1),
             sb_request = Structured \<lparr> sr_choiceId = Some cid, sr_intentId = None,
                                       sr_slots = None \<rparr> \<rparr> m1)"

definition currentConversationId :: "Manager \<Rightarrow> string option" where
  "currentConversationId m = conversationId (state m)"

definition subscribe :: "Subscriber \<Rightarrow> Manager \<Rightarrow> Manager" where
  "subscribe subscriber m =
     m\<lparr> subscribers := subscribers m @ [subscriber],
        effects := effects m @ [Notify subscriber (fromInternal (state m))] \<rparr>"

definition unsubscribe :: "Subscriber \<Rightarrow> Manager \<Rightarrow> Manager" where
  "unsubscribe subscriber m =
     m\<lparr> subscribers := filter (\<lambda>fn. fn \<noteq> subscriber) (subscribers m) \<rparr>"

definition unsubscribeAll :: "Manager \<Rightarrow> Manager" where
  "unsubscribeAll m = m\<lparr> subscribers := [] \<rparr>"

definition reset :: "Manager \<Rightarrow> Manager" where
  "reset m = setState (noChange\<lparr> ch_conversationId := Some None \<rparr>) m"

text \<open>
  \<^verbatim>\<open>socket.onmessage\<close>. Nothing in the handler catches what
  \<^verbatim>\<open>JSON.parse\<close> throws, so the error leaves the handler; the manager it leaves
  behind is returned with it.
\<close>

definition onmessage :: "Time \<Rightarrow> MessageData \<Rightarrow> Manager \<Rightarrow> (JSError \<times> Manager) + Manager" where
  "onmessage now e_data m =
     (case e_data of
        StringData d JSON_parse_d \<Rightarrow>
          (case JSON_parse_d of
             Inl err \<Rightarrow> Inl (err, m)
           | Inr response \<Rightarrow> Inr (messageResposeHandler now response m))
      | BinaryData \<Rightarrow> Inr m)"

text \<open>
  \<^verbatim>\<open>createConversation\<close>: the initial state with the greeting turn, the socket when
  the URL asks for one, and the welcome intent.
\<close>

definition initialState :: "Config \<Rightarrow> Time \<Rightarrow> InternalState" where
  "initialState config now =
     \<lparr> responses =
         (case greetingMessages config of
            None \<Rightarrow> []
          | Some gs \<Rightarrow>
              if length gs > 0
              then [BotResponse now
                      \<lparr> bot_conversationId = None,
                        messages = map (\<lambda>greetingMessage.
                                      \<lparr> messageId = None, msg_text = greetingMessage, choices = [],
                                        selectedChoiceId = None \<rparr>) gs,
                        metadata = None,
                        bot_payload = None,
                        bot_context = None \<rparr>]
              else []),
       conversationId = None,
       userId = cfg_userId config,
       contextSent = False \<rparr>"

definition createConversation :: "Config \<Rightarrow> Time \<Rightarrow> Promise option \<times> Manager" where
  "createConversation config now =
     (let m0 = \<lparr> state = initialState config now,
                 subscribers = [],
                 effects = (if isUsingWebSockets config then [SocketOpen (botUrl config)] else []) \<rparr>
      in if triggerWelcomeIntent config = Some True
         then (case sendIntent config ''NLX.Welcome'' m0 of (p, m1) \<Rightarrow> (Some p, m1))
         else (None, m0))"

section \<open>Runs of the manager\<close>

text \<open>
  Everything that can happen to a manager after its construction: a call of a public
  operation, the settling of the promise of an earlier send, and a message event of the
  socket. Each comes with the clock's value at that moment.
\<close>

datatype Action =
  SendText string
| SendSlots "(string \<times> string) list"
| SendChoice string
| SendIntent string
| SendStructured StructuredRequest
| Subscribe Subscriber
| Unsubscribe Subscriber
| UnsubscribeAll
| Reset
| Settle Outcome
| SocketMessage MessageData

text \<open>
  The handlers attached to an already resolved promise run as soon as the operation has
  returned, before any other action.
\<close>

fun afterSend :: "Config \<Rightarrow> Time \<Rightarrow> Promise \<times> Manager \<Rightarrow> Manager" where
  "afterSend config now (PromiseResolved response, m) = thenCatch config now (Fulfilled response) m"
| "afterSend config now (PromiseAwaiting, m) = m"

text \<open>
  One action. An error that leaves the socket's handler ends that handler and nothing
  else; there is a socket only when the manager uses one.
\<close>

fun step :: "Config \<Rightarrow> Time \<times> Action \<Rightarrow> Manager \<Rightarrow> Manager" where
  "step config (now, SendText txt) m = afterSend config now (sendText config now txt m)"
| "step config (now, SendSlots slots) m = afterSend config now (sendSlots config slots m)"
| "step config (now, SendChoice cid) m = afterSend config now (sendChoice config now cid m)"
| "step config (now, SendIntent iid) m = afterSend config now (sendIntent config iid m)"
| "step config (now, SendStructured sr) m =
     afterSend config now (sendStructured config sr m)"
| "step config (now, Subscribe f) m = subscribe f m"
| "step config (now, Unsubscribe f) m = unsubscribe f m"
| "step config (now, UnsubscribeAll) m = unsubscribeAll m"
| "step config (now, Reset) m = reset m"
| "step config (now, Settle outcome) m = thenCatch config now outcome m"
| "step config (now, SocketMessage e_data) m =
     (if isUsingWebSockets config
      then (case onmessage now e_data m of
              Inl (err, m') \<Rightarrow> m'
            | Inr m' \<Rightarrow> m')
      else m)"

fun run :: "Config \<Rightarrow> (Time \<times> Action) list \<Rightarrow> Manager \<Rightarrow> Manager" where
  "run config [] m = m"
| "run config (a # as) m = run config as (step config a m)"

text \<open>The manager right after construction, the welcome intent's handlers included.\<close>

definition start :: "Config \<Rightarrow> Time \<Rightarrow> Manager" where
  "start config now =
     (case createConversation config now of
        (Some p, m) \<Rightarrow> afterSend config now (p, m)
      | (None, m) \<Rightarrow> m)"

text \<open>The managers a run goes through, the first one included.\<close>

fun trajectory :: "Config \<Rightarrow> (Time \<times> Action) list \<Rightarrow> Manager \<Rightarrow> Manager list" where
  "trajectory config [] m = [m]"
| "trajectory config (a # as) m = m # trajectory config as (step config a m)"

text \<open>
  The payload of a genuine bot reply that an action hands to
  \<^verbatim>\<open>messageResposeHandler\<close>, if the action is one: a promise fulfilled with a
  payload, or a socket message whose text parses to a payload.
\<close>

fun botReply :: "Config \<Rightarrow> Action \<Rightarrow> WireResponse option" where
  "botReply config (Settle (Fulfilled (ReplyPayload p))) = Some p"
| "botReply config (SocketMessage (StringData d (Inr (ReplyPayload p)))) =
     (if isUsingWebSockets config then Some p else None)"
| "botReply config a = None"

text \<open>The bodies handed to the transport, in order.\<close>

fun dispatched :: "Effect list \<Rightarrow> OutboundBody list" where
  "dispatched [] = []"
| "dispatched (SocketSend b # es) = b # dispatched es"
| "dispatched (FetchPost url hs b # es) = b # dispatched es"
| "dispatched (e # es) = dispatched es"

section \<open>Predicates of the proofs\<close>

text \<open>
  Between a manager and a later one: \<open>sends\<close> when exactly one body was dispatched, with
  the context if and only if the flag was not yet set, and the flag is set afterwards;
  \<open>quiet\<close> when neither the flag nor the dispatched bodies changed.
\<close>

definition sends :: "Config \<Rightarrow> Manager \<Rightarrow> Manager \<Rightarrow> bool" where
  "sends config m m' \<longleftrightarrow>
     contextSent (state m') \<and>
     (\<exists>b. dispatched (effects m') = dispatched (effects m) @ [b] \<and>
          body_context b = (if contextSent (state m) then None else cfg_context config))"

definition quiet :: "Manager \<Rightarrow> Manager \<Rightarrow> bool" where
  "quiet m m' \<longleftrightarrow>
     contextSent (state m') = contextSent (state m) \<and>
     dispatched (effects m') = dispatched (effects m)"

text \<open>
  The invariant of the context handshake: the flag is set exactly when something was
  dispatched, and only the first dispatched body has the configured context.
\<close>

definition contextOnce :: "Config \<Rightarrow> Manager \<Rightarrow> bool" where
  "contextOnce config m \<longleftrightarrow>
     (contextSent (state m) \<longleftrightarrow> dispatched (effects m) \<noteq> []) \<and>
     (\<forall>i < length (dispatched (effects m)).
        body_context (dispatched (effects m) ! i) = (if i = 0 then cfg_context config else None))"

section \<open>Basic facts about the operations\<close>

lemmas eval_defs = start_def createConversation_def initialState_def isUsingWebSockets_def
  sendIntent_def sendText_def sendChoice_def sendSlots_def sendStructured_def sendToBot_def
  setState_def mergeState_def noChange_def fromInternal_def failureHandler_def
  fromWireMessage_def selectChoice_def fetchHeaders_def subscribe_def unsubscribe_def
  unsubscribeAll_def reset_def onmessage_def currentConversationId_def
  defaultFailureMessages_def Let_def

lemma setState_subscribers: "subscribers (setState change m) = subscribers m"
  by (simp add: setState_def Let_def)

lemma setState_state: "state (setState change m) = mergeState (state m) change"
  by (simp add: setState_def Let_def)

lemma setState_effects:
  "effects (setState change m) =
     effects m @ map (\<lambda>f. Notify f (responses (mergeState (state m) change))) (subscribers m)"
  by (simp add: setState_def Let_def fromInternal_def)

lemma sendToBot_state:
  "state (snd (sendToBot config body m)) = (state m)\<lparr> contextSent := True \<rparr>"
  by (simp add: sendToBot_def Let_def)

lemma sendToBot_subscribers: "subscribers (snd (sendToBot config body m)) = subscribers m"
  by (simp add: sendToBot_def Let_def)

lemma afterSend_sendToBot:
  "afterSend config now (sendToBot config body m) = snd (sendToBot config body m)"
  by (simp add: sendToBot_def Let_def)

lemma sendText_afterSend:
  "afterSend config now (sendText config now' txt m) = snd (sendText config now' txt m)"
  by (simp add: sendText_def Let_def afterSend_sendToBot)

lemma sendChoice_afterSend:
  "afterSend config now (sendChoice config now' c m) = snd (sendChoice config now' c m)"
  by (simp add: sendChoice_def Let_def afterSend_sendToBot)

lemma sendIntent_afterSend:
  "afterSend config now (sendIntent config i m) = snd (sendIntent config i m)"
  by (simp add: sendIntent_def afterSend_sendToBot)

lemma sendSlots_afterSend:
  "afterSend config now (sendSlots config sl m) = snd (sendSlots config sl m)"
  by (simp add: sendSlots_def afterSend_sendToBot)

lemma sendStructured_afterSend:
  "afterSend config now (sendStructured config sr m) = snd (sendStructured config sr m)"
  by (simp add: sendStructured_def afterSend_sendToBot)

lemmas afterSend_simps = sendText_afterSend sendChoice_afterSend sendIntent_afterSend
  sendSlots_afterSend sendStructured_afterSend

lemma start_eq: "start config t0 = snd (createConversation config t0)"
proof (cases "triggerWelcomeIntent config = Some True")
  case True
  then show ?thesis
    by (simp add: start_def createConversation_def Let_def split_beta sendIntent_afterSend)
next
  case False
  then show ?thesis
    by (simp add: start_def createConversation_def Let_def)
qed

lemma dispatched_append: "dispatched (xs @ ys) = dispatched xs @ dispatched ys"
  by (induction xs rule: dispatched.induct) simp_all

lemma dispatched_Notify: "dispatched (map (\<lambda>f. Notify f s) fs) = []"
  by (induction fs) simp_all

lemma setState_dispatched: "dispatched (effects (setState change m)) = dispatched (effects m)"
  by (simp add: setState_effects dispatched_append dispatched_Notify)

lemma setState_contextSent:
  "ch_contextSent change = None \<Longrightarrow>
   contextSent (state (setState change m)) = contextSent (state m)"
  by (simp add: setState_state mergeState_def)

section \<open>Choice selection\<close>

lemma indexOf_ge: "indexOf xs v \<ge> -1"
  by (induction xs) (simp_all add: Let_def)

lemma indexOf_found: "indexOf xs v > -1 \<longleftrightarrow> v \<in> set xs"
proof (induction xs)
  case Nil
  show ?case by simp
next
  case (Cons x xs)
  have "indexOf xs v \<ge> -1" by (rule indexOf_ge)
  with Cons show ?case by (auto simp: Let_def)
qed

lemma selectChoice_eq:
  "selectChoice c bm =
     (if c \<in> choiceId ` set (choices bm) then bm\<lparr> selectedChoiceId := Some c \<rparr> else bm)"
  by (simp add: selectChoice_def indexOf_found)

lemma selectChoice_idem: "selectChoice c (selectChoice c bm) = selectChoice c bm"
  by (simp add: selectChoice_def)

lemma selectInResponse_idem: "selectInResponse c (selectInResponse c r) = selectInResponse c r"
  by (cases r) (simp_all add: selectChoice_idem)

lemma selectInResponse_cases:
  "(case r of
      UserResponse t p \<Rightarrow> selectInResponse c r = UserResponse t p
    | BotResponse t p \<Rightarrow>
        (\<exists>p'. selectInResponse c r = BotResponse t p' \<and>
              p' = p\<lparr> messages := messages p' \<rparr> \<and>
              length (messages p') = length (messages p) \<and>
              (\<forall>j < length (messages p).
                 messages p' ! j =
                   (if c \<in> choiceId ` set (choices (messages p ! j))
                    then (messages p ! j)\<lparr> selectedChoiceId := Some c \<rparr>
                    else messages p ! j))))"
  by (cases r) (simp_all add: selectChoice_eq)

lemma sendChoice_responses:
  "responses (state (snd (sendChoice config now c m))) =
     map (selectInResponse c) (responses (state m)) @ [UserResponse now (UserChoice c)]"
  by (simp add: sendChoice_def Let_def sendToBot_state setState_state mergeState_def noChange_def)

lemma sendChoice_effects:
  "effects (snd (sendChoice config now c m)) =
     effects m @
     map (\<lambda>f. Notify f (responses (state (snd (sendChoice config now c m))))) (subscribers m) @
     [last (effects (snd (sendChoice config now c m)))] \<and>
   map request (dispatched [last (effects (snd (sendChoice config now c m)))]) =
     [Structured \<lparr> sr_choiceId = Some c, sr_intentId = None, sr_slots = None \<rparr>]"
  by (simp add: sendChoice_responses)
    (simp add: sendChoice_def sendToBot_def Let_def setState_effects setState_subscribers
      setState_state mergeState_def noChange_def)

text \<open>
  C1. \<^verbatim>\<open>sendChoice(choiceId)\<close> makes the timeline one entry longer. Every entry
  that was there keeps its place: a user response is unchanged; a bot response keeps its
  time and every field of its payload except the messages, of which there are as many
  as before, each with \<^verbatim>\<open>selectedChoiceId\<close> set to \<^verbatim>\<open>choiceId\<close> when its
  choices have that id, and unchanged otherwise. The new last entry is the user's
  choice. The effects added are the calls of the subscribers with the new timeline and
  then, last, the dispatch of the structured request with that choice.
\<close>

theorem sendChoice_rewrites_then_appends:
  "length (responses (state (snd (sendChoice config now c m)))) =
     Suc (length (responses (state m))) \<and>
   last (responses (state (snd (sendChoice config now c m)))) = UserResponse now (UserChoice c) \<and>
   (\<forall>i < length (responses (state m)).
      (case responses (state m) ! i of
         UserResponse t p \<Rightarrow>
           responses (state (snd (sendChoice config now c m))) ! i = UserResponse t p
       | BotResponse t p \<Rightarrow>
           (\<exists>p'. responses (state (snd (sendChoice config now c m))) ! i = BotResponse t p' \<and>
                 p' = p\<lparr> messages := messages p' \<rparr> \<and>
                 length (messages p') = length (messages p) \<and>
                 (\<forall>j < length (messages p).
                    messages p' ! j =
                      (if c \<in> choiceId ` set (choices (messages p ! j))
                       then (messages p ! j)\<lparr> selectedChoiceId := Some c \<rparr>
                       else messages p ! j))))) \<and>
   effects (snd (sendChoice config now c m)) =
     effects m @
     map (\<lambda>f. Notify f (responses (state (snd (sendChoice config now c m))))) (subscribers m) @
     [last (effects (snd (sendChoice config now c m)))] \<and>
   map request (dispatched [last (effects (snd (sendChoice config now c m)))]) =
     [Structured \<lparr> sr_choiceId = Some c, sr_intentId = None, sr_slots = None \<rparr>]"
proof -
  have nth: "\<And>i. i < length (responses (state m)) \<Longrightarrow>
      responses (state (snd (sendChoice config now c m))) ! i =
        selectInResponse c (responses (state m) ! i)"
    by (simp add: sendChoice_responses nth_append)
  have timeline: "length (responses (state (snd (sendChoice config now c m)))) =
       Suc (length (responses (state m))) \<and>
     last (responses (state (snd (sendChoice config now c m)))) = UserResponse now (UserChoice c)"
    by (simp add: sendChoice_responses)
  have rewrite: "\<forall>i < length (responses (state m)).
      (case responses (state m) ! i of
         UserResponse t p \<Rightarrow>
           responses (state (snd (sendChoice config now c m))) ! i = UserResponse t p
       | BotResponse t p \<Rightarrow>
           (\<exists>p'. responses (state (snd (sendChoice config now c m))) ! i = BotResponse t p' \<and>
                 p' = p\<lparr> messages := messages p' \<rparr> \<and>
                 length (messages p') = length (messages p) \<and>
                 (\<forall>j < length (messages p).
                    messages p' ! j =
                      (if c \<in> choiceId ` set (choices (messages p ! j))
                       then (messages p ! j)\<lparr> selectedChoiceId := Some c \<rparr>
                       else messages p ! j))))"
  proof (intro allI impI)
    fix i assume "i < length (responses (state m))"
    then show "case responses (state m) ! i of
         BotResponse t p \<Rightarrow>
           (\<exists>p'. responses (state (snd (sendChoice config now c m))) ! i = BotResponse t p' \<and>
                 p' = p\<lparr> messages := messages p' \<rparr> \<and>
                 length (messages p') = length (messages p) \<and>
                 (\<forall>j < length (messages p).
                    messages p' ! j =
                      (if c \<in> choiceId ` set (choices (messages p ! j))
                       then (messages p ! j)\<lparr> selectedChoiceId := Some c \<rparr>
                       else messages p ! j)))
       | UserResponse t p \<Rightarrow>
           responses (state (snd (sendChoice config now c m))) ! i = UserResponse t p"
      using selectInResponse_cases [where c = c and r = "responses (state m) ! i"]
      by (cases "responses (state m) ! i") (simp_all add: nth)
  qed
  from timeline rewrite sendChoice_effects [of config now c m] show ?thesis
    by blast
qed

text \<open>
  The scenario of the specification: a reply offers the choices \<open>a\<close> and \<open>b\<close> in the
  message \<open>m1\<close>; \<^verbatim>\<open>sendChoice("a")\<close> stamps \<open>m1\<close>, and a later
  \<^verbatim>\<open>sendChoice("z")\<close> only adds its own user turn.
\<close>

theorem sendChoice_rewrites_then_appends_witness:
  "let config = \<lparr> botUrl = ''https://bot.example/api'', cfg_userId = None,
         failureMessages = None, greetingMessages = None, cfg_context = None,
         triggerWelcomeIntent = None, headers = None, languageCode = None,
         experimental_channelType = None \<rparr>;
       reply = ReplyPayload \<lparr> wr_conversationId = Some ''c1'',
         wr_messages = [\<lparr> wm_messageId = Some ''m1'', wm_text = ''Pick one'',
           wm_choices = Some [\<lparr> choiceId = ''a'', choiceText = ''A'' \<rparr>,
                              \<lparr> choiceId = ''b'', choiceText = ''B'' \<rparr>] \<rparr>],
         wr_metadata = None, wr_payload = None, wr_context = None \<rparr>;
       m = subscribe 7 (thenCatch config 1 (Fulfilled reply) (start config 0));
       m1 = snd (sendChoice config 2 ''a'' m);
       m2 = snd (sendChoice config 3 ''z'' m1)
   in (0::nat) < length (responses (state m)) \<and>
      responses (state m1) =
        [BotResponse 1
           \<lparr> bot_conversationId = Some ''c1'',
             messages = [\<lparr> messageId = Some ''m1'', msg_text = ''Pick one'',
               choices = [\<lparr> choiceId = ''a'', choiceText = ''A'' \<rparr>,
                          \<lparr> choiceId = ''b'', choiceText = ''B'' \<rparr>],
               selectedChoiceId = Some ''a'' \<rparr>],
             metadata = None, bot_payload = None, bot_context = None \<rparr>,
         UserResponse 2 (UserChoice ''a'')] \<and>
      responses (state m2) = responses (state m1) @ [UserResponse 3 (UserChoice ''z'')] \<and>
      map request (dispatched (effects m1)) =
        [Structured \<lparr> sr_choiceId = Some ''a'', sr_intentId = None, sr_slots = None \<rparr>]"
proof -
  let ?config = "\<lparr> botUrl = ''https://bot.example/api'', cfg_userId = None,
         failureMessages = None, greetingMessages = None, cfg_context = None,
         triggerWelcomeIntent = None, headers = None, languageCode = None,
         experimental_channelType = None \<rparr>"
  let ?reply = "ReplyPayload \<lparr> wr_conversationId = Some ''c1'',
         wr_messages = [\<lparr> wm_messageId = Some ''m1'', wm_text = ''Pick one'',
           wm_choices = Some [\<lparr> choiceId = ''a'', choiceText = ''A'' \<rparr>,
                              \<lparr> choiceId = ''b'', choiceText = ''B'' \<rparr>] \<rparr>],
         wr_metadata = None, wr_payload = None, wr_context = None \<rparr>"
  let ?m = "subscribe 7 (thenCatch ?config 1 (Fulfilled ?reply) (start ?config 0))"
  show ?thesis
    unfolding Let_def
    using sendChoice_rewrites_then_appends [of ?config 2 "''a''" ?m]
    by (simp add: eval_defs)
qed

text \<open>
  C9. Calling \<^verbatim>\<open>sendChoice(c)\<close> a second time with the same \<^verbatim>\<open>c\<close> changes
  nothing in the timeline that the first call left, and adds one more user choice turn
  at the end: the stamping of the bot messages is the same after two calls as after one.
\<close>

theorem sendChoice_twice_same_stamping:
  "responses (state (snd (sendChoice config t2 c (snd (sendChoice config t1 c m))))) =
     responses (state (snd (sendChoice config t1 c m))) @ [UserResponse t2 (UserChoice c)]"
  by (simp add: sendChoice_responses selectInResponse_idem)

section \<open>Failure handling\<close>

text \<open>
  C4. When the outbound call rejects, the handlers attached to its promise append exactly
  one bot response to the timeline, stamped with the current time. Its messages carry the
  configured failure messages, or the built-in default (one message) when none are
  configured; every message has no choices, no \<^verbatim>\<open>messageId\<close> and no selected
  choice; the payload has no \<^verbatim>\<open>conversationId\<close>, and the conversation's own
  \<^verbatim>\<open>conversationId\<close> stays as it was. The handler returns a manager: it has no
  error result.
\<close>

theorem rejected_call_appends_failure_response:
  "\<exists>p. responses (state (thenCatch config now Rejected m)) =
         responses (state m) @ [BotResponse now p] \<and>
       map msg_text (messages p) =
         (case failureMessages config of Some fm \<Rightarrow> fm | None \<Rightarrow> defaultFailureMessages) \<and>
       (\<forall>bm \<in> set (messages p).
          choices bm = [] \<and> messageId bm = None \<and> selectedChoiceId bm = None) \<and>
       bot_conversationId p = None \<and>
       length defaultFailureMessages = 1 \<and>
       conversationId (state (thenCatch config now Rejected m)) = conversationId (state m)"
  by (simp add: failureHandler_def setState_state mergeState_def noChange_def comp_def
      defaultFailureMessages_def)

text \<open>
  The scenario of the specification: a greeting, \<^verbatim>\<open>sendText("hello")\<close>, then the
  call rejects; the timeline has three entries, the last one with the default message,
  and \<^verbatim>\<open>reset()\<close> keeps all three.
\<close>

theorem rejected_call_appends_failure_response_witness:
  "let config = \<lparr> botUrl = ''https://bot.example/api'', cfg_userId = None,
         failureMessages = None, greetingMessages = Some [''Hi''], cfg_context = None,
         triggerWelcomeIntent = None, headers = None, languageCode = None,
         experimental_channelType = None \<rparr>;
       m = snd (sendText config 1 ''hello'' (start config 0));
       m' = thenCatch config 2 Rejected m
   in length (responses (state m)) = 2 \<and>
      responses (state m') = responses (state m) @
        [BotResponse 2
           \<lparr> bot_conversationId = None,
             messages = [\<lparr> messageId = None,
               msg_text = ''We encountered an issue while contacting the server. Please try again in a few moments.'',
               choices = [], selectedChoiceId = None \<rparr>],
             metadata = None, bot_payload = None, bot_context = None \<rparr>] \<and>
      currentConversationId (reset m') = None \<and>
      length (responses (state (reset m'))) = 3"
proof -
  let ?config = "\<lparr> botUrl = ''https://bot.example/api'', cfg_userId = None,
         failureMessages = None, greetingMessages = Some [''Hi''], cfg_context = None,
         triggerWelcomeIntent = None, headers = None, languageCode = None,
         experimental_channelType = None \<rparr>"
  show ?thesis
    unfolding Let_def
    using rejected_call_appends_failure_response
      [of ?config 2 "snd (sendText ?config 1 ''hello'' (start ?config 0))"]
    by (simp add: eval_defs)
qed

section \<open>Reset\<close>

text \<open>
  C5. \<^verbatim>\<open>reset()\<close> sets \<^verbatim>\<open>conversationId\<close> to undefined, so that
  \<^verbatim>\<open>currentConversationId()\<close> returns undefined afterwards, and leaves the
  responses, \<^verbatim>\<open>userId\<close>, \<^verbatim>\<open>contextSent\<close> and the subscriber list as they
  were, in every manager state.
\<close>

theorem reset_clears_only_conversationId:
  "currentConversationId (reset m) = None \<and>
   conversationId (state (reset m)) = None \<and>
   responses (state (reset m)) = responses (state m) \<and>
   userId (state (reset m)) = userId (state m) \<and>
   contextSent (state (reset m)) = contextSent (state m) \<and>
   subscribers (reset m) = subscribers m"
  by (simp add: reset_def currentConversationId_def setState_state setState_subscribers
      mergeState_def noChange_def)

section \<open>Operations that only dispatch\<close>

text \<open>
  C6. \<^verbatim>\<open>sendSlots\<close>, \<^verbatim>\<open>sendIntent\<close> and \<^verbatim>\<open>sendStructured\<close> leave the
  responses unchanged, both when the call returns and after the handlers of an already
  resolved promise have run. Each adds exactly one effect, the dispatch of its request.
\<close>

theorem dispatch_only_operations_keep_timeline:
  "responses (state (snd (sendSlots config slots m))) = responses (state m) \<and>
   responses (state (snd (sendIntent config iid m))) = responses (state m) \<and>
   responses (state (snd (sendStructured config sr m))) = responses (state m) \<and>
   responses (state (step config (now, SendSlots slots) m)) = responses (state m) \<and>
   responses (state (step config (now, SendIntent iid) m)) = responses (state m) \<and>
   responses (state (step config (now, SendStructured sr) m)) = responses (state m) \<and>
   length (effects (snd (sendSlots config slots m))) = Suc (length (effects m)) \<and>
   length (effects (snd (sendIntent config iid m))) = Suc (length (effects m)) \<and>
   length (effects (snd (sendStructured config sr m))) = Suc (length (effects m)) \<and>
   map request (dispatched (effects (snd (sendSlots config slots m)))) =
     map request (dispatched (effects m)) @
       [Structured \<lparr> sr_choiceId = None, sr_intentId = None, sr_slots = Some slots \<rparr>] \<and>
   map request (dispatched (effects (snd (sendIntent config iid m)))) =
     map request (dispatched (effects m)) @
       [Structured \<lparr> sr_choiceId = None, sr_intentId = Some iid, sr_slots = None \<rparr>] \<and>
   map request (dispatched (effects (snd (sendStructured config sr m)))) =
     map request (dispatched (effects m)) @ [Structured sr]"
  by (simp add: sendSlots_def sendIntent_def sendStructured_def afterSend_sendToBot
      sendToBot_state)
    (simp add: sendToBot_def Let_def dispatched_append)

section \<open>Replies\<close>

text \<open>
  C10. A call that resolves with \<^verbatim>\<open>null\<close> or \<^verbatim>\<open>undefined\<close> leaves the
  manager exactly as it was: the state (timeline, \<^verbatim>\<open>conversationId\<close>), the
  subscribers and the recorded effects (no subscriber call, no failure message) are
  unchanged, which is also what the pending sentinel does.
\<close>

theorem falsy_reply_is_discarded:
  "thenCatch config now (Fulfilled ReplyNull) m = m \<and>
   thenCatch config now (Fulfilled ReplyUndefined) m = m \<and>
   thenCatch config now (Fulfilled ReplyNull) m = thenCatch config now (Fulfilled ReplyPending) m \<and>
   thenCatch config now (Fulfilled ReplyUndefined) m =
     thenCatch config now (Fulfilled ReplyPending) m \<and>
   step config (now, Settle (Fulfilled ReplyNull)) m = m \<and>
   step config (now, Settle (Fulfilled ReplyUndefined)) m = m"
  by simp

section \<open>The conversation identifier\<close>

lemma send_conversationId:
  "conversationId (state (snd (sendText config now txt m))) = conversationId (state m)"
  "conversationId (state (snd (sendChoice config now c m))) = conversationId (state m)"
  "conversationId (state (snd (sendIntent config i m))) = conversationId (state m)"
  "conversationId (state (snd (sendSlots config sl m))) = conversationId (state m)"
  "conversationId (state (snd (sendStructured config sr m))) = conversationId (state m)"
  by (simp_all add: sendText_def sendChoice_def sendIntent_def sendSlots_def
      sendStructured_def Let_def sendToBot_state setState_state mergeState_def noChange_def)

lemma step_conversationId:
  "conversationId (state (step config (now, a) m)) =
     (case botReply config a of
        Some p \<Rightarrow> wr_conversationId p
      | None \<Rightarrow> if a = Reset then None else conversationId (state m))"
proof (cases a)
  case (Settle outcome)
  show ?thesis
  proof (cases outcome)
    case (Fulfilled r)
    with Settle show ?thesis
      by (cases r) (simp_all add: setState_state mergeState_def noChange_def)
  next
    case Rejected
    with Settle show ?thesis
      by (simp add: failureHandler_def setState_state mergeState_def noChange_def)
  qed
next
  case (SocketMessage e)
  show ?thesis
  proof (cases e)
    case BinaryData
    with SocketMessage show ?thesis by (simp add: onmessage_def)
  next
    case (StringData d parsed)
    show ?thesis
    proof (cases parsed)
      case (Inl err)
      with SocketMessage StringData show ?thesis by (simp add: onmessage_def)
    next
      case (Inr r)
      with SocketMessage StringData show ?thesis
        by (cases r) (simp_all add: onmessage_def setState_state mergeState_def noChange_def)
    qed
  qed
qed (simp_all add: afterSend_simps send_conversationId setState_state mergeState_def
      noChange_def subscribe_def unsubscribe_def unsubscribeAll_def reset_def)

lemma start_conversationId: "conversationId (state (start config t0)) = None"
  by (simp add: start_eq createConversation_def Let_def split_beta send_conversationId
      initialState_def)

lemma run_conversationId_None:
  "conversationId (state m) = None \<Longrightarrow> \<forall>ta \<in> set acts. botReply config (snd ta) = None \<Longrightarrow>
   conversationId (state (run config acts m)) = None"
proof (induction acts arbitrary: m)
  case Nil
  then show ?case by simp
next
  case (Cons ta acts)
  obtain now a where ta: "ta = (now, a)" by (cases ta)
  from Cons.prems have "botReply config a = None" by (simp add: ta)
  with Cons.prems(1) have "conversationId (state (step config ta m)) = None"
    by (simp add: ta step_conversationId)
  with Cons show ?case by simp
qed

text \<open>
  C2, as the code has it. \<^verbatim>\<open>conversationId\<close> is undefined after construction and
  stays undefined through every run in which no bot reply payload is handled. One action
  changes it in two cases only: a handled bot reply payload sets it to the
  \<^verbatim>\<open>conversationId\<close> of that payload, whatever it was before, and
  \<^verbatim>\<open>reset()\<close> sets it to undefined. Every other action (the five sends, a
  rejected call, a pending sentinel or a falsy reply, a socket message that is binary or
  does not parse, the subscription operations) leaves it as it was.
\<close>

theorem conversationId_changes_only_by_reply_or_reset:
  "conversationId (state (start config t0)) = None \<and>
   ((\<forall>ta \<in> set acts. botReply config (snd ta) = None) \<longrightarrow>
      conversationId (state (run config acts (start config t0))) = None) \<and>
   conversationId (state (step config (now, a) m)) =
     (case botReply config a of
        Some p \<Rightarrow> wr_conversationId p
      | None \<Rightarrow> if a = Reset then None else conversationId (state m))"
  using run_conversationId_None [OF start_conversationId, of acts config config t0]
  by (simp add: start_conversationId step_conversationId)

text \<open>
  A run without a bot reply payload: the welcome intent, a text, a rejected call, a
  pending sentinel, a choice and a reset.
\<close>

theorem conversationId_changes_only_by_reply_or_reset_witness:
  "let config = \<lparr> botUrl = ''https://bot.example/api'', cfg_userId = Some ''u1'',
         failureMessages = None, greetingMessages = Some [''Hi''], cfg_context = None,
         triggerWelcomeIntent = Some True, headers = None, languageCode = None,
         experimental_channelType = None \<rparr>;
       acts = [(1, SendText ''hello''), (2, Settle Rejected), (3, Settle (Fulfilled ReplyPending)),
               (4, SendChoice ''a''), (5, Reset)]
   in (\<forall>ta \<in> set acts. botReply config (snd ta) = None) \<and>
      conversationId (state (run config acts (start config 0))) = None \<and>
      length (responses (state (run config acts (start config 0)))) = 4"
proof -
  let ?config = "\<lparr> botUrl = ''https://bot.example/api'', cfg_userId = Some ''u1'',
         failureMessages = None, greetingMessages = Some [''Hi''], cfg_context = None,
         triggerWelcomeIntent = Some True, headers = None, languageCode = None,
         experimental_channelType = None \<rparr>"
  let ?acts = "[(1, SendText ''hello''), (2, Settle Rejected), (3, Settle (Fulfilled ReplyPending)),
               (4, SendChoice ''a''), (5, Reset)]"
  show ?thesis
    unfolding Let_def
    using conversationId_changes_only_by_reply_or_reset [of ?config 0 ?acts]
    by (simp add: eval_defs)
qed

text \<open>
  Against C2 as stated: after a first reply with the identifier \<open>c1\<close>, a second reply
  with the identifier \<open>c2\<close> changes \<^verbatim>\<open>conversationId\<close> to \<open>c2\<close>, without any
  \<^verbatim>\<open>reset()\<close>.
\<close>

theorem conversationId_replaced_by_later_reply:
  "conversationId (state
     (thenCatch
        \<lparr> botUrl = ''https://bot.example/api'', cfg_userId = None, failureMessages = None,
          greetingMessages = None, cfg_context = None, triggerWelcomeIntent = None,
          headers = None, languageCode = None, experimental_channelType = None \<rparr>
        1
        (Fulfilled (ReplyPayload \<lparr> wr_conversationId = Some ''c1'', wr_messages = [],
           wr_metadata = None, wr_payload = None, wr_context = None \<rparr>))
        (start
           \<lparr> botUrl = ''https://bot.example/api'', cfg_userId = None, failureMessages = None,
          greetingMessages = None, cfg_context = None, triggerWelcomeIntent = None,
          headers = None, languageCode = None, experimental_channelType = None \<rparr>
           0))) = Some ''c1'' \<and>
   conversationId (state
     (thenCatch
        \<lparr> botUrl = ''https://bot.example/api'', cfg_userId = None, failureMessages = None,
          greetingMessages = None, cfg_context = None, triggerWelcomeIntent = None,
          headers = None, languageCode = None, experimental_channelType = None \<rparr>
        2
        (Fulfilled (ReplyPayload \<lparr> wr_conversationId = Some ''c2'', wr_messages = [],
           wr_metadata = None, wr_payload = None, wr_context = None \<rparr>))
        (thenCatch
           \<lparr> botUrl = ''https://bot.example/api'', cfg_userId = None, failureMessages = None,
          greetingMessages = None, cfg_context = None, triggerWelcomeIntent = None,
          headers = None, languageCode = None, experimental_channelType = None \<rparr>
           1
           (Fulfilled (ReplyPayload \<lparr> wr_conversationId = Some ''c1'', wr_messages = [],
              wr_metadata = None, wr_payload = None, wr_context = None \<rparr>))
           (start
              \<lparr> botUrl = ''https://bot.example/api'', cfg_userId = None, failureMessages = None,
          greetingMessages = None, cfg_context = None, triggerWelcomeIntent = None,
          headers = None, languageCode = None, experimental_channelType = None \<rparr>
              0)))) = Some ''c2''"
  by (simp add: eval_defs)

section \<open>The context handshake\<close>

lemma sendToBot_context:
  "contextSent (state (snd (sendToBot config body m))) \<and>
   (\<exists>b. dispatched (effects (snd (sendToBot config body m))) = dispatched (effects m) @ [b] \<and>
        body_context b = (if contextSent (state m) then None else cfg_context config))"
  by (simp add: sendToBot_def Let_def dispatched_append)

lemma sendToBot_sends: "sends config m (snd (sendToBot config body m))"
  unfolding sends_def by (rule sendToBot_context)

lemma setState_quiet: "ch_contextSent change = None \<Longrightarrow> quiet m (setState change m)"
  by (simp add: quiet_def setState_dispatched setState_contextSent)

lemma quiet_refl: "quiet m m"
  by (simp add: quiet_def)

lemma quiet_sends: "quiet m m1 \<Longrightarrow> sends config m1 m2 \<Longrightarrow> sends config m m2"
  by (simp add: quiet_def sends_def)

lemma sendText_sends: "sends config m (snd (sendText config now txt m))"
  unfolding sendText_def Let_def
  by (rule quiet_sends [OF setState_quiet sendToBot_sends]) (simp add: noChange_def)

lemma sendChoice_sends: "sends config m (snd (sendChoice config now c m))"
  unfolding sendChoice_def Let_def
  by (rule quiet_sends [OF setState_quiet sendToBot_sends]) (simp add: noChange_def)

lemma sendIntent_sends: "sends config m (snd (sendIntent config i m))"
  unfolding sendIntent_def by (rule sendToBot_sends)

lemma sendSlots_sends: "sends config m (snd (sendSlots config sl m))"
  unfolding sendSlots_def by (rule sendToBot_sends)

lemma sendStructured_sends: "sends config m (snd (sendStructured config sr m))"
  unfolding sendStructured_def by (rule sendToBot_sends)

lemmas send_ops_context = sendText_sends sendChoice_sends sendIntent_sends sendSlots_sends
  sendStructured_sends

lemma messageResposeHandler_quiet: "quiet m (messageResposeHandler now r m)"
proof (cases r)
  case (ReplyPayload p)
  then show ?thesis by (simp add: setState_quiet noChange_def)
qed (simp_all add: quiet_def)

lemma failureHandler_quiet: "quiet m (failureHandler config now m)"
  unfolding failureHandler_def by (rule setState_quiet) (simp add: noChange_def)

lemmas handler_quiet = messageResposeHandler_quiet failureHandler_quiet

text \<open>Every action either dispatches once or leaves flag and dispatched bodies alone.\<close>

lemma step_context:
  "sends config m (step config (now, a) m) \<or> quiet m (step config (now, a) m)"
proof (cases a)
  case (Settle outcome)
  then show ?thesis
    by (cases outcome) (simp_all add: handler_quiet)
next
  case (SocketMessage e)
  show ?thesis
  proof (cases e)
    case BinaryData
    with SocketMessage show ?thesis by (simp add: onmessage_def quiet_refl)
  next
    case (StringData d parsed)
    with SocketMessage show ?thesis
      by (cases parsed) (simp_all add: onmessage_def handler_quiet quiet_refl)
  qed
next
  case Reset
  have "quiet m (reset m)"
    unfolding reset_def by (rule setState_quiet) (simp add: noChange_def)
  with Reset show ?thesis by simp
qed (simp_all add: afterSend_simps send_ops_context,
     simp_all add: quiet_def subscribe_def unsubscribe_def unsubscribeAll_def dispatched_append)

lemma step_contextSent_mono:
  "contextSent (state m) \<Longrightarrow> contextSent (state (step config ta m))"
  using step_context [of config m "fst ta" "snd ta"] by (auto simp: sends_def quiet_def)

lemma trajectory_contextSent:
  "contextSent (state m) \<Longrightarrow> \<forall>x \<in> set (trajectory config acts m). contextSent (state x)"
proof (induction acts arbitrary: m)
  case Nil
  then show ?case by simp
next
  case (Cons a acts)
  from Cons.prems have "contextSent (state (step config a m))"
    by (rule step_contextSent_mono)
  then have "\<forall>x \<in> set (trajectory config acts (step config a m)). contextSent (state x)"
    by (rule Cons.IH)
  with Cons.prems show ?case by simp
qed

lemma trajectory_sorted:
  "sorted_wrt (\<lambda>a b. contextSent (state a) \<longrightarrow> contextSent (state b)) (trajectory config acts m)"
proof (induction acts arbitrary: m)
  case Nil
  show ?case by simp
next
  case (Cons a acts)
  have "contextSent (state m) \<longrightarrow>
      (\<forall>x \<in> set (trajectory config acts (step config a m)). contextSent (state x))"
    using trajectory_contextSent [where m = "step config a m" and config = config and acts = acts]
      step_contextSent_mono [where m = m and config = config and ta = a]
    by blast
  with Cons.IH [of "step config a m"] show ?case by simp
qed

lemma contextOnce_sends: "contextOnce config m \<Longrightarrow> sends config m m' \<Longrightarrow> contextOnce config m'"
  by (auto simp: contextOnce_def sends_def nth_append)

lemma contextOnce_quiet: "contextOnce config m \<Longrightarrow> quiet m m' \<Longrightarrow> contextOnce config m'"
  by (simp add: contextOnce_def quiet_def)

lemma contextOnce_step: "contextOnce config m \<Longrightarrow> contextOnce config (step config ta m)"
  using step_context [of config m "fst ta" "snd ta"]
  by (auto intro: contextOnce_sends contextOnce_quiet)

lemma contextOnce_run: "contextOnce config m \<Longrightarrow> contextOnce config (run config acts m)"
  by (induction acts arbitrary: m) (simp_all add: contextOnce_step)

lemma contextOnce_start: "contextOnce config (start config t0)"
proof (cases "triggerWelcomeIntent config = Some True")
  case True
  let ?m0 = "\<lparr> state = initialState config t0, subscribers = [],
               effects = (if isUsingWebSockets config then [SocketOpen (botUrl config)] else []) \<rparr>"
  have "contextOnce config ?m0"
    by (simp add: contextOnce_def initialState_def)
  then have "contextOnce config (snd (sendIntent config ''NLX.Welcome'' ?m0))"
    by (rule contextOnce_sends) (rule sendIntent_sends)
  with True show ?thesis
    by (simp add: start_eq createConversation_def Let_def split_beta)
next
  case False
  then show ?thesis
    by (simp add: start_eq createConversation_def Let_def contextOnce_def initialState_def)
qed

text \<open>
  C3. For a manager constructed with a context map and every run of it: along the run,
  once \<^verbatim>\<open>contextSent\<close> is true it is true in every later state, so it goes from
  false to true at most once; it is true exactly when something has been dispatched; of
  the dispatched bodies, the first has the configured context and no later one has a
  context, whatever happened between the sends (a rejected call included); and the
  failure handler leaves a set flag set.
\<close>

theorem context_sent_once:
  "cfg_context config = Some ctx \<Longrightarrow>
   sorted_wrt (\<lambda>a b. contextSent (state a) \<longrightarrow> contextSent (state b))
     (trajectory config acts (start config t0)) \<and>
   (contextSent (state (run config acts (start config t0))) \<longleftrightarrow>
      dispatched (effects (run config acts (start config t0))) \<noteq> []) \<and>
   (\<forall>i < length (dispatched (effects (run config acts (start config t0)))).
      body_context (dispatched (effects (run config acts (start config t0))) ! i) =
        (if i = 0 then Some ctx else None)) \<and>
   (contextSent (state m) \<longrightarrow> contextSent (state (thenCatch config now Rejected m)))"
  using contextOnce_run [OF contextOnce_start, of config acts t0]
    step_contextSent_mono [of m config "(now, Settle Rejected)"]
  by (simp add: contextOnce_def trajectory_sorted)

text \<open>
  A text whose call rejects, then an intent: the first body has the context, the second
  has none, and the flag is set from the first send on.
\<close>

theorem context_sent_once_witness:
  "let config = \<lparr> botUrl = ''https://bot.example/api'', cfg_userId = Some ''u1'',
         failureMessages = None, greetingMessages = None,
         cfg_context = Some [(''plan'', ''pro'')],
         triggerWelcomeIntent = None, headers = None, languageCode = None,
         experimental_channelType = None \<rparr>;
       acts = [(1, SendText ''hello''), (2, Settle Rejected), (3, SendIntent ''again'')]
   in cfg_context config = Some [(''plan'', ''pro'')] \<and>
      map (contextSent \<circ> state) (trajectory config acts (start config 0)) =
        [False, True, True, True] \<and>
      map body_context (dispatched (effects (run config acts (start config 0)))) =
        [Some [(''plan'', ''pro'')], None]"
proof -
  let ?config = "\<lparr> botUrl = ''https://bot.example/api'', cfg_userId = Some ''u1'',
         failureMessages = None, greetingMessages = None,
         cfg_context = Some [(''plan'', ''pro'')],
         triggerWelcomeIntent = None, headers = None, languageCode = None,
         experimental_channelType = None \<rparr>"
  let ?acts = "[(1, SendText ''hello''), (2, Settle Rejected), (3, SendIntent ''again'')]"
  have ctx: "cfg_context ?config = Some [(''plan'', ''pro'')]" by simp
  show ?thesis
    unfolding Let_def
    using context_sent_once [OF ctx, of ?acts 0]
    by (simp add: eval_defs)
qed

section \<open>The socket's message handler\<close>

text \<open>
  C7, as the code has it. For a text frame on which \<^verbatim>\<open>JSON.parse\<close> throws, the
  error leaves the handler, with the manager as it was before the frame: no timeline
  entry, no change of the state, no subscriber call. As an action of a run, the frame
  leaves the manager unchanged.
\<close>

theorem parse_error_leaves_manager_unchanged:
  "onmessage now (StringData d (Inl err)) m = Inl (err, m) \<and>
   step config (now, SocketMessage (StringData d (Inl err))) m = m"
  by (simp add: onmessage_def)

text \<open>
  Against C7 as stated: on the frame \<^verbatim>\<open>{\<close>, which \<^verbatim>\<open>JSON.parse\<close> rejects with
  a \<^verbatim>\<open>SyntaxError\<close>, the handler does not return: the error escapes it.
\<close>

theorem parse_error_escapes_handler:
  "onmessage 1 (StringData ''{'' (Inl SyntaxError))
     \<lparr> state = \<lparr> responses = [], conversationId = None, userId = None, contextSent = False \<rparr>,
       subscribers = [], effects = [SocketOpen ''wss://bot.example/socket''] \<rparr> =
   Inl (SyntaxError,
     \<lparr> state = \<lparr> responses = [], conversationId = None, userId = None, contextSent = False \<rparr>,
       subscribers = [], effects = [SocketOpen ''wss://bot.example/socket''] \<rparr>)"
  by (simp add: onmessage_def)

section \<open>Subscriptions\<close>

lemma filter_neq_removeAll: "filter (\<lambda>fn. fn \<noteq> f) xs = removeAll f xs"
  by (induction xs) auto

lemma length_removeAll_count: "length (removeAll f xs) + count_list xs f = length xs"
  by (induction xs) simp_all

lemma removeAll_single: "count_list xs f = 1 \<Longrightarrow> removeAll f xs = remove1 f xs"
proof (induction xs)
  case Nil
  then show ?case by simp
next
  case (Cons x xs)
  show ?case
  proof (cases "x = f")
    case True
    with Cons.prems show ?thesis by (auto simp: count_list_0_iff)
  next
    case False
    with Cons show ?thesis by simp
  qed
qed

text \<open>
  C8, as the code has it. \<^verbatim>\<open>unsubscribe(fn)\<close> removes every registration of
  \<^verbatim>\<open>fn\<close>, as many as there are, and keeps the other registrations in their order;
  it changes neither the state nor the effects. When \<^verbatim>\<open>fn\<close> is registered once,
  exactly one registration is removed, the first one. A subscription of \<^verbatim>\<open>fn\<close>
  after the removal is a new registration at the end of the notification order.
\<close>

theorem unsubscribe_removes_every_registration:
  "subscribers (unsubscribe f m) = removeAll f (subscribers m) \<and>
   f \<notin> set (subscribers (unsubscribe f m)) \<and>
   length (subscribers (unsubscribe f m)) + count_list (subscribers m) f =
     length (subscribers m) \<and>
   (count_list (subscribers m) f = 1 \<longrightarrow>
      length (subscribers (unsubscribe f m)) + 1 = length (subscribers m) \<and>
      subscribers (unsubscribe f m) = remove1 f (subscribers m)) \<and>
   subscribers (subscribe f (unsubscribe f m)) = removeAll f (subscribers m) @ [f] \<and>
   state (unsubscribe f m) = state m \<and>
   effects (unsubscribe f m) = effects m"
proof -
  have subs: "subscribers (unsubscribe f m) = removeAll f (subscribers m)"
    by (simp add: unsubscribe_def filter_neq_removeAll)
  have once: "count_list (subscribers m) f = 1 \<longrightarrow>
      length (subscribers (unsubscribe f m)) + 1 = length (subscribers m) \<and>
      subscribers (unsubscribe f m) = remove1 f (subscribers m)"
    using length_removeAll_count [of f "subscribers m"] removeAll_single [of "subscribers m" f]
    unfolding subs by auto
  have rest: "subscribers (subscribe f (unsubscribe f m)) = removeAll f (subscribers m) @ [f] \<and>
      state (unsubscribe f m) = state m \<and> effects (unsubscribe f m) = effects m"
    by (simp add: subscribe_def subs) (simp add: unsubscribe_def)
  have gone: "f \<notin> set (subscribers (unsubscribe f m)) \<and>
      length (subscribers (unsubscribe f m)) + count_list (subscribers m) f =
        length (subscribers m)"
    using length_removeAll_count [of f "subscribers m"] by (simp add: subs)
  from subs gone once rest show ?thesis
    by blast
qed

text \<open>Three subscribers, the second one removed and subscribed again.\<close>

theorem unsubscribe_removes_every_registration_witness:
  "let m = \<lparr> state = \<lparr> responses = [], conversationId = None, userId = None,
                        contextSent = False \<rparr>,
             subscribers = [1, 2, 3], effects = [] \<rparr>
   in count_list (subscribers m) 2 = 1 \<and>
      subscribers (unsubscribe 2 m) = [1, 3] \<and>
      subscribers (subscribe 2 (unsubscribe 2 m)) = [1, 3, 2]"
  unfolding Let_def
  using unsubscribe_removes_every_registration
    [of 2 "\<lparr> state = \<lparr> responses = [], conversationId = None, userId = None,
                        contextSent = False \<rparr>,
             subscribers = [1, 2, 3], effects = [] \<rparr>"]
  by (simp add: eval_defs)

text \<open>
  Against C8 as stated: \<^verbatim>\<open>subscribe\<close> registers the same function twice, and one
  \<^verbatim>\<open>unsubscribe\<close> then removes both registrations, not one.
\<close>

theorem unsubscribe_removes_duplicate_registrations:
  "subscribers (subscribe 1 (subscribe 1
       \<lparr> state = \<lparr> responses = [], conversationId = None, userId = None, contextSent = False \<rparr>,
         subscribers = [], effects = [] \<rparr>)) = [1, 1] \<and>
   subscribers (unsubscribe 1 (subscribe 1 (subscribe 1
       \<lparr> state = \<lparr> responses = [], conversationId = None, userId = None, contextSent = False \<rparr>,
         subscribers = [], effects = [] \<rparr>))) = []"
  by (simp add: subscribe_def unsubscribe_def)

end
